theory Spec2Isabelle
  imports Main "HOL-Library.Word"
begin

unbundle bit_operations_syntax

section \<open>Native memory and instrumented reads\<close>

text \<open>
  The package reads records of vaultcli.dll through raw pointers. Native memory is a
  byte-addressed total function over 64-bit addresses (the windows/amd64 target: a
  \<^verbatim>\<open>uintptr\<close> is 64 bits wide and address arithmetic wraps). Access violations, the
  dereference of a null record pointer among them, are outside the model: every address
  can be read. The nil tests that the source makes are branches of the model.

  Every function of the marshaling layer returns, next to its value, the list of memory
  accesses it performed (address and width in bytes, in program order). A call that
  never returns (the scan of a wide string without a zero unit) is \<open>None\<close>.
\<close>

type_synonym byte = "8 word"
type_synonym uintptr = "64 word"
type_synonym memory = "uintptr \<Rightarrow> byte"
type_synonym access = "uintptr \<times> nat"
type_synonym 'a reading = "('a \<times> access list) option"

definition rd_return :: "'a \<Rightarrow> 'a reading" where
  "rd_return x = Some (x, [])"

definition rd_bind :: "'a reading \<Rightarrow> ('a \<Rightarrow> 'b reading) \<Rightarrow> 'b reading" where
  "rd_bind r f =
     (case r of
        None \<Rightarrow> None
      | Some (x, acc) \<Rightarrow>
          (case f x of None \<Rightarrow> None | Some (y, acc') \<Rightarrow> Some (y, acc @ acc')))"

fun read_bytes :: "memory \<Rightarrow> uintptr \<Rightarrow> nat \<Rightarrow> byte list" where
  "read_bytes m a 0 = []"
| "read_bytes m a (Suc n) = m a # read_bytes m (a + 1) n"

text \<open>Little-endian composition of a value from its bytes.\<close>

fun le_word :: "byte list \<Rightarrow> 'a::len word" where
  "le_word [] = 0"
| "le_word (b # bs) = ucast b OR push_bit 8 (le_word bs)"

definition read16 :: "memory \<Rightarrow> uintptr \<Rightarrow> 16 word" where
  "read16 m a = le_word [m a, m (a + 1)]"

definition read32 :: "memory \<Rightarrow> uintptr \<Rightarrow> 32 word" where
  "read32 m a = le_word [m a, m (a + 1), m (a + 2), m (a + 3)]"

definition read64 :: "memory \<Rightarrow> uintptr \<Rightarrow> 64 word" where
  "read64 m a =
     le_word [m a, m (a + 1), m (a + 2), m (a + 3), m (a + 4), m (a + 5), m (a + 6), m (a + 7)]"

definition load16 :: "memory \<Rightarrow> uintptr \<Rightarrow> 16 word reading" where
  "load16 m a = Some (read16 m a, [(a, 2)])"

definition load32 :: "memory \<Rightarrow> uintptr \<Rightarrow> 32 word reading" where
  "load32 m a = Some (read32 m a, [(a, 4)])"

definition load64 :: "memory \<Rightarrow> uintptr \<Rightarrow> 64 word reading" where
  "load64 m a = Some (read64 m a, [(a, 8)])"

text \<open>A block copy of \<open>n\<close> bytes; copying nothing touches no memory.\<close>

definition load_bytes :: "memory \<Rightarrow> uintptr \<Rightarrow> nat \<Rightarrow> byte list reading" where
  "load_bytes m a n = Some (read_bytes m a n, if n = 0 then [] else [(a, n)])"

text \<open>The elements of a \<^verbatim>\<open>[]uint16\<close> slice of \<open>n\<close> units at \<open>a\<close>, read one by one.\<close>

fun load16s :: "memory \<Rightarrow> uintptr \<Rightarrow> nat \<Rightarrow> 16 word list reading" where
  "load16s m a 0 = Some ([], [])"
| "load16s m a (Suc n) =
     (case load16s m (a + 2) n of
        None \<Rightarrow> None
      | Some (us, acc) \<Rightarrow> Some (read16 m a # us, (a, 2) # acc))"

section \<open>Go strings, UTF-16 decoding and UTF-8 encoding\<close>

text \<open>
  A Go string is an immutable sequence of bytes. The conversions \<^verbatim>\<open>[]byte(s)\<close> and
  \<^verbatim>\<open>string(b)\<close> copy the bytes unchanged.
\<close>

datatype gostring = GoString "byte list"

fun bytes_of_string :: "gostring \<Rightarrow> byte list" where
  "bytes_of_string (GoString bs) = bs"

definition string_of_bytes :: "byte list \<Rightarrow> gostring" where
  "string_of_bytes bs = GoString bs"

text \<open>A string literal of ASCII characters.\<close>

definition go_literal :: "string \<Rightarrow> gostring" where
  "go_literal cs = GoString (map (\<lambda>c. of_nat (of_char c)) cs)"

type_synonym rune = "32 word"

definition surr1 :: "16 word" where "surr1 = 0xd800"
definition surr2 :: "16 word" where "surr2 = 0xdc00"
definition surr3 :: "16 word" where "surr3 = 0xe000"
definition surrSelf :: rune where "surrSelf = 0x10000"
definition replacementChar :: rune where "replacementChar = 0xFFFD"

text \<open>
  \<^verbatim>\<open>utf16.DecodeRune\<close> (Go standard library), at a high and a low surrogate:
  \<^verbatim>\<open>(r1-surr1)<<10 | (r2 - surr2) + surrSelf\<close>, where \<^verbatim>\<open>|\<close> and \<^verbatim>\<open>+\<close> have the
  same precedence and associate to the left.
\<close>

definition DecodeRune :: "16 word \<Rightarrow> 16 word \<Rightarrow> rune" where
  "DecodeRune r1 r2 =
     (push_bit 10 (ucast r1 - ucast surr1) OR (ucast r2 - ucast surr2)) + surrSelf"

text \<open>
  \<^verbatim>\<open>utf16.Decode\<close> (Go standard library): a unit outside the surrogate range is a rune
  of its own, a high surrogate followed by a low surrogate is one rune, every other
  surrogate becomes U+FFFD.
\<close>

fun utf16_Decode :: "16 word list \<Rightarrow> rune list" where
  "utf16_Decode [] = []"
| "utf16_Decode [r] = [if r < surr1 \<or> surr3 \<le> r then ucast r else replacementChar]"
| "utf16_Decode (r # r' # s) =
     (if r < surr1 \<or> surr3 \<le> r then ucast r # utf16_Decode (r' # s)
      else if surr1 \<le> r \<and> r < surr2 \<and> surr2 \<le> r' \<and> r' < surr3
        then DecodeRune r r' # utf16_Decode s
      else replacementChar # utf16_Decode (r' # s))"

text \<open>
  The conversion \<^verbatim>\<open>string([]rune)\<close> encodes each rune in UTF-8 (the runtime's
  \<^verbatim>\<open>encoderune\<close>); the comparisons are on the rune as \<^verbatim>\<open>uint32\<close>.
\<close>

definition encoderune :: "rune \<Rightarrow> byte list" where
  "encoderune r =
     (if r \<le> 0x7F then [ucast r]
      else if r \<le> 0x7FF then [0xC0 OR ucast (drop_bit 6 r), 0x80 OR (ucast r AND 0x3F)]
      else if r > 0x10FFFF \<or> (0xD800 \<le> r \<and> r \<le> 0xDFFF) then [0xEF, 0xBF, 0xBD]
      else if r \<le> 0xFFFF then
        [0xE0 OR ucast (drop_bit 12 r), 0x80 OR (ucast (drop_bit 6 r) AND 0x3F),
         0x80 OR (ucast r AND 0x3F)]
      else
        [0xF0 OR ucast (drop_bit 18 r), 0x80 OR (ucast (drop_bit 12 r) AND 0x3F),
         0x80 OR (ucast (drop_bit 6 r) AND 0x3F), 0x80 OR (ucast r AND 0x3F)])"

definition string_of_runes :: "rune list \<Rightarrow> gostring" where
  "string_of_runes rs = GoString (concat (map encoderune rs))"

section \<open>Time\<close>

text \<open>
  \<^verbatim>\<open>syscall.Filetime\<close> and its method \<^verbatim>\<open>Nanoseconds\<close> (Go standard library), in
  wrapping 64-bit arithmetic; \<^verbatim>\<open>time.Unix(sec, nsec)\<close> is the instant, in nanoseconds
  since the Unix epoch.
\<close>

record Filetime =
  LowDateTime :: "32 word"
  HighDateTime :: "32 word"

definition Nanoseconds :: "Filetime \<Rightarrow> 64 word" where
  "Nanoseconds ft =
     (push_bit 32 (ucast (HighDateTime ft)) + ucast (LowDateTime ft) - 116444736000000000) * 100"

datatype Time = Instant int

definition time_Unix :: "64 word \<Rightarrow> 64 word \<Rightarrow> Time" where
  "time_Unix sec nsec = Instant (sint sec * 1000000000 + sint nsec)"

section \<open>The public data model\<close>

type_synonym UUID = "byte list"
type_synonym Handle = uintptr

datatype ElementType = ElementTypeString | ElementTypeByteArray

text \<open>
  The two implementations of the interface \<^verbatim>\<open>VaultItemElement\<close>. An interface value
  that may be nil is a \<open>VaultItemElement option\<close>.
\<close>

datatype VaultItemElement =
    VaultItemElementString "32 word" gostring
  | VaultItemElementByteArray "32 word" "byte list"

fun Type_of :: "VaultItemElement \<Rightarrow> ElementType" where
  "Type_of (VaultItemElementString i v) = ElementTypeString"
| "Type_of (VaultItemElementByteArray i v) = ElementTypeByteArray"

fun ID_of :: "VaultItemElement \<Rightarrow> 32 word" where
  "ID_of (VaultItemElementString i v) = i"
| "ID_of (VaultItemElementByteArray i v) = i"

fun AsString :: "VaultItemElement \<Rightarrow> gostring" where
  "AsString (VaultItemElementString i v) = v"
| "AsString (VaultItemElementByteArray i v) = string_of_bytes v"

fun AsByteArray :: "VaultItemElement \<Rightarrow> byte list" where
  "AsByteArray (VaultItemElementString i v) = bytes_of_string v"
| "AsByteArray (VaultItemElementByteArray i v) = v"

record VaultItem =
  ID :: UUID
  Name :: gostring
  Resource :: "VaultItemElement option"
  Identity :: "VaultItemElement option"
  Authenticator :: "VaultItemElement option"
  LastModified :: Time

record Vault =
  VaultID :: UUID
  VaultName :: gostring
  Path :: gostring
  handle :: Handle

definition InvalidHandle :: Handle where
  "InvalidHandle = - 1"

section \<open>Native records\<close>

text \<open>
  Field offsets on windows/amd64.
  \<^verbatim>\<open>sysVaultElement\<close>: ID at 0, Type at 8 (two 32-bit fields, each followed by 32 bits of
  padding); \<^verbatim>\<open>sysVaultElementString\<close> adds Data at 16; \<^verbatim>\<open>sysVaultElementByteArray\<close>
  adds Length at 16 and Value at 24.
  \<^verbatim>\<open>sysVaultItem7\<close> (72 bytes): ID 0, Name 16, Resource 24, Identity 32, Authenticator 40,
  Filetime 48, Flags 56, PropertiesCount 60, Properties 64.
  \<^verbatim>\<open>sysVaultItem8\<close> (80 bytes): as before up to Authenticator, then PackageSid 48,
  Filetime 56, Flags 64, PropertiesCount 68, Properties 72.
\<close>

type_synonym sysVaultElementType = "32 word"

definition vaultElementTypeString :: sysVaultElementType where
  "vaultElementTypeString = 7"

definition vaultElementTypeByteArray :: sysVaultElementType where
  "vaultElementTypeByteArray = 8"

definition load_Filetime :: "memory \<Rightarrow> uintptr \<Rightarrow> Filetime reading" where
  "load_Filetime m a =
     Some (\<lparr>LowDateTime = read32 m a, HighDateTime = read32 m (a + 4)\<rparr>, [(a, 8)])"

record sysVaultItem7 =
  ID7 :: UUID
  Name7 :: uintptr
  Resource7 :: uintptr
  Identity7 :: uintptr
  Authenticator7 :: uintptr
  Filetime7 :: Filetime
  Flags7 :: "32 word"
  PropertiesCount7 :: "32 word"
  Properties7 :: uintptr

record sysVaultItem8 =
  ID8 :: UUID
  Name8 :: uintptr
  Resource8 :: uintptr
  Identity8 :: uintptr
  Authenticator8 :: uintptr
  PackageSid8 :: uintptr
  Filetime8 :: Filetime
  Flags8 :: "32 word"
  PropertiesCount8 :: "32 word"
  Properties8 :: uintptr

text \<open>A record copied by value out of native memory (the range loops copy each descriptor).\<close>

definition read_sysVaultItem7 :: "memory \<Rightarrow> uintptr \<Rightarrow> sysVaultItem7" where
  "read_sysVaultItem7 m p =
     \<lparr>ID7 = read_bytes m p 16, Name7 = read64 m (p + 16), Resource7 = read64 m (p + 24),
      Identity7 = read64 m (p + 32), Authenticator7 = read64 m (p + 40),
      Filetime7 = \<lparr>LowDateTime = read32 m (p + 48), HighDateTime = read32 m (p + 52)\<rparr>,
      Flags7 = read32 m (p + 56), PropertiesCount7 = read32 m (p + 60),
      Properties7 = read64 m (p + 64)\<rparr>"

definition read_sysVaultItem8 :: "memory \<Rightarrow> uintptr \<Rightarrow> sysVaultItem8" where
  "read_sysVaultItem8 m p =
     \<lparr>ID8 = read_bytes m p 16, Name8 = read64 m (p + 16), Resource8 = read64 m (p + 24),
      Identity8 = read64 m (p + 32), Authenticator8 = read64 m (p + 40),
      PackageSid8 = read64 m (p + 48),
      Filetime8 = \<lparr>LowDateTime = read32 m (p + 56), HighDateTime = read32 m (p + 60)\<rparr>,
      Flags8 = read32 m (p + 64), PropertiesCount8 = read32 m (p + 68),
      Properties8 = read64 m (p + 72)\<rparr>"

section \<open>The marshaling layer\<close>

text \<open>
  The scanning loop of \<^verbatim>\<open>utf16PtrToString\<close>: \<^verbatim>\<open>for len := 0; ; len++\<close> reads the unit
  at \<^verbatim>\<open>wstr + len * 2\<close> and stops at the first zero unit. The counter is a 64-bit
  \<^verbatim>\<open>int\<close>; its conversion to \<^verbatim>\<open>uintptr\<close> keeps the bits. In a memory without a zero
  unit on the way the loop never ends.
\<close>

partial_function (option) utf16_scan :: "memory \<Rightarrow> uintptr \<Rightarrow> 64 word \<Rightarrow> 64 word reading" where
  "utf16_scan m wstr len =
     (let ptr = wstr + len * 2 in
      if read16 m ptr = 0 then Some (len, [(ptr, 2)])
      else Option.bind (utf16_scan m wstr (len + 1)) (\<lambda>(n, acc). Some (n, (ptr, 2) # acc)))"

declare utf16_scan.simps [code]

text \<open>
  The slice handed to \<^verbatim>\<open>utf16.Decode\<close> has \<^verbatim>\<open>Len: len\<close>, a signed \<^verbatim>\<open>int\<close>; a
  slice ranges over no element when its length is not positive.
\<close>

definition utf16PtrToString :: "memory \<Rightarrow> uintptr \<Rightarrow> gostring reading" where
  "utf16PtrToString m wstr =
     (if wstr \<noteq> 0 then
        rd_bind (utf16_scan m wstr 0) (\<lambda>len.
        rd_bind (load16s m wstr (nat (sint len))) (\<lambda>units.
        rd_return (string_of_runes (utf16_Decode units))))
      else rd_return (GoString []))"

definition goBytes :: "memory \<Rightarrow> uintptr \<Rightarrow> 32 word \<Rightarrow> byte list reading" where
  "goBytes m src len =
     (if src = 0 then rd_return []
      else load_bytes m src (unat len))"

text \<open>
  \<^verbatim>\<open>convertToVaultItemElement\<close>: the switch on \<^verbatim>\<open>elem.Type\<close> has a case for the string
  type and one for the byte-array type and no default; every other path reaches
  \<^verbatim>\<open>return nil\<close>.
\<close>

definition convertToVaultItemElement :: "memory \<Rightarrow> uintptr \<Rightarrow> VaultItemElement option reading" where
  "convertToVaultItemElement m elem =
     (if elem \<noteq> 0 then
        rd_bind (load32 m (elem + 8)) (\<lambda>ty.
        if ty = vaultElementTypeString then
          rd_bind (load32 m elem) (\<lambda>i.
          rd_bind (load64 m (elem + 16)) (\<lambda>data.
          rd_bind (utf16PtrToString m data) (\<lambda>v.
          rd_return (Some (VaultItemElementString i v)))))
        else if ty = vaultElementTypeByteArray then
          rd_bind (load32 m elem) (\<lambda>i.
          rd_bind (load64 m (elem + 24)) (\<lambda>val.
          rd_bind (load32 m (elem + 16)) (\<lambda>len.
          rd_bind (goBytes m val len) (\<lambda>v.
          rd_return (Some (VaultItemElementByteArray i v))))))
        else rd_return None)
      else rd_return None)"

definition convertToVaultItem7 :: "memory \<Rightarrow> uintptr \<Rightarrow> VaultItem reading" where
  "convertToVaultItem7 m item =
     rd_bind (load_bytes m item 16) (\<lambda>i.
     rd_bind (load64 m (item + 16)) (\<lambda>name_ptr.
     rd_bind (utf16PtrToString m name_ptr) (\<lambda>name.
     rd_bind (load64 m (item + 24)) (\<lambda>res_ptr.
     rd_bind (convertToVaultItemElement m res_ptr) (\<lambda>res.
     rd_bind (load64 m (item + 32)) (\<lambda>ident_ptr.
     rd_bind (convertToVaultItemElement m ident_ptr) (\<lambda>ident.
     rd_bind (load64 m (item + 40)) (\<lambda>auth_ptr.
     rd_bind (convertToVaultItemElement m auth_ptr) (\<lambda>auth.
     rd_bind (load_Filetime m (item + 48)) (\<lambda>ft.
     rd_return \<lparr>ID = i, Name = name, Resource = res, Identity = ident,
       Authenticator = auth, LastModified = time_Unix 0 (Nanoseconds ft)\<rparr>))))))))))"

definition convertToVaultItem8 :: "memory \<Rightarrow> uintptr \<Rightarrow> VaultItem reading" where
  "convertToVaultItem8 m item =
     rd_bind (load_bytes m item 16) (\<lambda>i.
     rd_bind (load64 m (item + 16)) (\<lambda>name_ptr.
     rd_bind (utf16PtrToString m name_ptr) (\<lambda>name.
     rd_bind (load64 m (item + 24)) (\<lambda>res_ptr.
     rd_bind (convertToVaultItemElement m res_ptr) (\<lambda>res.
     rd_bind (load64 m (item + 32)) (\<lambda>ident_ptr.
     rd_bind (convertToVaultItemElement m ident_ptr) (\<lambda>ident.
     rd_bind (load64 m (item + 40)) (\<lambda>auth_ptr.
     rd_bind (convertToVaultItemElement m auth_ptr) (\<lambda>auth.
     rd_bind (load_Filetime m (item + 56)) (\<lambda>ft.
     rd_return \<lparr>ID = i, Name = name, Resource = res, Identity = ident,
       Authenticator = auth, LastModified = time_Unix 0 (Nanoseconds ft)\<rparr>))))))))))"

section \<open>The native call gateway\<close>

text \<open>
  The entry points of vaultcli.dll are not part of the package: they are parameters of
  the model. A native call takes the native state \<open>'s\<close> (everything the library and
  the operating system hold, the process memory included) to a new state and returns
  the status code and the values it wrote through its out-pointers. \<open>memory_of\<close> reads
  the process memory off a state. Arguments that the package always passes as zero are
  left out.

  Every gateway function returns its result, the state after it and the trace of what it
  did to the native side: the native calls, in program order, and the memory reads
  between them.
\<close>

datatype error = Errno uintptr

datatype event =
    Load uintptr nat
  | Call_VaultEnumerateVaults
  | Call_VaultOpenVault UUID
  | Call_VaultCloseVault Handle
  | Call_VaultGetInformation Handle "32 word"
  | Call_VaultEnumerateItems Handle
  | Call_VaultGetItem Handle UUID uintptr uintptr "uintptr option"
  | Call_VaultFree uintptr

fun is_VaultFree :: "event \<Rightarrow> bool" where
  "is_VaultFree (Call_VaultFree p) = True"
| "is_VaultFree e = False"

definition loads :: "access list \<Rightarrow> event list" where
  "loads acc = map (\<lambda>(a, n). Load a n) acc"

record 's vaultcli =
  memory_of :: "'s \<Rightarrow> memory"
  VaultEnumerateVaults :: "'s \<Rightarrow> (uintptr \<times> 64 word \<times> uintptr) \<times> 's"
  VaultOpenVault :: "UUID \<Rightarrow> 's \<Rightarrow> (uintptr \<times> Handle) \<times> 's"
  VaultCloseVault :: "Handle \<Rightarrow> 's \<Rightarrow> uintptr \<times> 's"
  VaultGetInformation :: "Handle \<Rightarrow> 32 word \<Rightarrow> 's \<Rightarrow> (uintptr \<times> uintptr) \<times> 's"
  VaultEnumerateItems :: "Handle \<Rightarrow> 's \<Rightarrow> (uintptr \<times> 64 word \<times> uintptr) \<times> 's"
  VaultGetItem ::
    "Handle \<Rightarrow> UUID \<Rightarrow> uintptr \<Rightarrow> uintptr \<Rightarrow> uintptr option \<Rightarrow> 's \<Rightarrow> (uintptr \<times> uintptr) \<times> 's"
  VaultFree :: "uintptr \<Rightarrow> 's \<Rightarrow> 's"

type_synonym ('s, 'a) called = "('a \<times> 's \<times> event list) option"

definition vaultInformationKindName :: "32 word" where
  "vaultInformationKindName = 0x01"

definition vaultInformationKindPath7 :: "32 word" where
  "vaultInformationKindPath7 = 0x08"

definition vaultInformationKindPath8 :: "32 word" where
  "vaultInformationKindPath8 = 0x04"

text \<open>\<^verbatim>\<open>isWindows7\<close>, on the value of \<^verbatim>\<open>windows.GetVersion\<close>.\<close>

definition isWindows7 :: "32 word \<Rightarrow> bool" where
  "isWindows7 ver =
     (let verMajor = (ucast ver :: byte); verMinor = (ucast (drop_bit 8 ver) :: byte)
      in verMajor = 6 \<and> verMinor = 1)"

text \<open>
  The addresses of the elements of a slice of records of \<open>sz\<close> bytes at \<open>base\<close>.
  The length of the slice header is the signed \<^verbatim>\<open>int\<close> the native call wrote; a range
  loop over a slice of non-positive length has no iteration.
\<close>

definition slice_addrs :: "uintptr \<Rightarrow> nat \<Rightarrow> 64 word \<Rightarrow> uintptr list" where
  "slice_addrs base sz count = map (\<lambda>i. base + of_nat (i * sz)) [0..<nat (sint count)]"

text \<open>
  A panic of the Go runtime, in the one place where the package can raise one on data
  of the native side: \<^verbatim>\<open>make([]uuid.UUID, count)\<close> panics for a negative length and for
  one beyond the allocation limit (\<open>2 ^ 48\<close> bytes on amd64).
\<close>

datatype 'a outcome = Panic | Return 'a

definition sysVaultEnumerateVaults ::
  "'s vaultcli \<Rightarrow> 's \<Rightarrow> (error + UUID list) outcome \<times> 's \<times> event list" where
  "sysVaultEnumerateVaults cli s =
     (case VaultEnumerateVaults cli s of ((ret, count, guids), s1) \<Rightarrow>
        if ret \<noteq> 0 then (Return (Inl (Errno ret)), s1, [Call_VaultEnumerateVaults])
        else if sint count < 0 \<or> 2 ^ 48 < sint count * 16 then
          (Panic, VaultFree cli guids s1, [Call_VaultEnumerateVaults, Call_VaultFree guids])
        else
          (Return (Inr (map (\<lambda>p. read_bytes (memory_of cli s1) p 16) (slice_addrs guids 16 count))),
           VaultFree cli guids s1,
           Call_VaultEnumerateVaults #
             (if nat (sint count) = 0 then [] else [Load guids (nat (sint count) * 16)]) @
             [Call_VaultFree guids]))"

definition sysVaultOpenVault ::
  "'s vaultcli \<Rightarrow> UUID \<Rightarrow> 's \<Rightarrow> (error + Handle) \<times> 's \<times> event list" where
  "sysVaultOpenVault cli i s =
     (case VaultOpenVault cli i s of ((ret, h), s1) \<Rightarrow>
        if ret \<noteq> 0 then (Inl (Errno ret), s1, [Call_VaultOpenVault i])
        else (Inr h, s1, [Call_VaultOpenVault i]))"

text \<open>The result of \<^verbatim>\<open>sysVaultCloseVault\<close> is a Go \<^verbatim>\<open>error\<close>: \<open>None\<close> is nil.\<close>

definition sysVaultCloseVault ::
  "'s vaultcli \<Rightarrow> Handle \<Rightarrow> 's \<Rightarrow> error option \<times> 's \<times> event list" where
  "sysVaultCloseVault cli h s =
     (case VaultCloseVault cli h s of (ret, s1) \<Rightarrow>
        if ret \<noteq> 0 then (Some (Errno ret), s1, [Call_VaultCloseVault h])
        else (None, s1, [Call_VaultCloseVault h]))"

definition sysVaultGetInformationString ::
  "'s vaultcli \<Rightarrow> Handle \<Rightarrow> 32 word \<Rightarrow> 's \<Rightarrow> ('s, error + gostring) called" where
  "sysVaultGetInformationString cli h kind s =
     (case VaultGetInformation cli h kind s of ((ret, val), s1) \<Rightarrow>
        if ret \<noteq> 0 then Some (Inl (Errno ret), s1, [Call_VaultGetInformation h kind])
        else
          (case utf16PtrToString (memory_of cli s1) val of
             None \<Rightarrow> None
           | Some (str, acc) \<Rightarrow>
               Some (Inr str, s1, Call_VaultGetInformation h kind # loads acc)))"

text \<open>
  \<^verbatim>\<open>sysVaultGetItem7\<close> and \<^verbatim>\<open>sysVaultGetItem8\<close>: the deferred \<^verbatim>\<open>VaultFree\<close> of the
  detail record runs after the conversion, when the function returns.
\<close>

definition sysVaultGetItem7 ::
  "'s vaultcli \<Rightarrow> Handle \<Rightarrow> sysVaultItem7 \<Rightarrow> 's \<Rightarrow> ('s, error + VaultItem) called" where
  "sysVaultGetItem7 cli h descriptor s =
     (let call = Call_VaultGetItem h (ID7 descriptor) (Resource7 descriptor)
                   (Identity7 descriptor) None in
      case VaultGetItem cli h (ID7 descriptor) (Resource7 descriptor) (Identity7 descriptor)
             None s of ((ret, item), s1) \<Rightarrow>
        if ret \<noteq> 0 then Some (Inl (Errno ret), s1, [call])
        else
          (case convertToVaultItem7 (memory_of cli s1) item of
             None \<Rightarrow> None
           | Some (v, acc) \<Rightarrow>
               Some (Inr v, VaultFree cli item s1, call # loads acc @ [Call_VaultFree item])))"

definition sysVaultGetItem8 ::
  "'s vaultcli \<Rightarrow> Handle \<Rightarrow> sysVaultItem8 \<Rightarrow> 's \<Rightarrow> ('s, error + VaultItem) called" where
  "sysVaultGetItem8 cli h descriptor s =
     (let call = Call_VaultGetItem h (ID8 descriptor) (Resource8 descriptor)
                   (Identity8 descriptor) (Some (PackageSid8 descriptor)) in
      case VaultGetItem cli h (ID8 descriptor) (Resource8 descriptor) (Identity8 descriptor)
             (Some (PackageSid8 descriptor)) s of ((ret, item), s1) \<Rightarrow>
        if ret \<noteq> 0 then Some (Inl (Errno ret), s1, [call])
        else
          (case convertToVaultItem8 (memory_of cli s1) item of
             None \<Rightarrow> None
           | Some (v, acc) \<Rightarrow>
               Some (Inr v, VaultFree cli item s1, call # loads acc @ [Call_VaultFree item])))"

text \<open>
  One iteration of the range loops of \<^verbatim>\<open>sysVaultEnumerateItems\<close>: the descriptor at
  \<open>p\<close> is copied out of the enumeration buffer and handed to \<^verbatim>\<open>sysVaultGetItem7\<close>
  (Windows 7) or \<^verbatim>\<open>sysVaultGetItem8\<close>.
\<close>

definition fetch_descriptor ::
  "'s vaultcli \<Rightarrow> bool \<Rightarrow> Handle \<Rightarrow> uintptr \<Rightarrow> 's \<Rightarrow> ('s, error + VaultItem) called" where
  "fetch_descriptor cli useAPI7 h p s =
     (if useAPI7 then
        (case sysVaultGetItem7 cli h (read_sysVaultItem7 (memory_of cli s) p) s of
           None \<Rightarrow> None
         | Some (r, s1, tr) \<Rightarrow> Some (r, s1, Load p 72 # tr))
      else
        (case sysVaultGetItem8 cli h (read_sysVaultItem8 (memory_of cli s) p) s of
           None \<Rightarrow> None
         | Some (r, s1, tr) \<Rightarrow> Some (r, s1, Load p 80 # tr)))"

text \<open>
  The loop: \<^verbatim>\<open>item, err := sysVaultGetItem(handle, descriptor); if err == nil { result =
  append(result, *item) }\<close>, over the descriptors in order.
\<close>

fun range_append ::
  "(uintptr \<Rightarrow> 's \<Rightarrow> ('s, error + VaultItem) called) \<Rightarrow> uintptr list \<Rightarrow> VaultItem list \<Rightarrow> 's \<Rightarrow>
     ('s, VaultItem list) called" where
  "range_append fetch [] result s = Some (result, s, [])"
| "range_append fetch (p # ps) result s =
     (case fetch p s of
        None \<Rightarrow> None
      | Some (r, s1, tr1) \<Rightarrow>
          (case range_append fetch ps
                  (case r of Inl err \<Rightarrow> result | Inr item \<Rightarrow> result @ [item]) s1 of
             None \<Rightarrow> None
           | Some (res, s2, tr2) \<Rightarrow> Some (res, s2, tr1 @ tr2)))"

definition sysVaultEnumerateItems ::
  "'s vaultcli \<Rightarrow> bool \<Rightarrow> Handle \<Rightarrow> 's \<Rightarrow> ('s, error + VaultItem list) called" where
  "sysVaultEnumerateItems cli useAPI7 h s =
     (case VaultEnumerateItems cli h s of ((ret, count, items), s1) \<Rightarrow>
        if ret \<noteq> 0 then Some (Inl (Errno ret), s1, [Call_VaultEnumerateItems h])
        else
          (case range_append (fetch_descriptor cli useAPI7 h)
                  (slice_addrs items (if useAPI7 then 72 else 80) count) [] s1 of
             None \<Rightarrow> None
           | Some (result, s2, tr) \<Rightarrow>
               Some (Inr result, VaultFree cli items s2,
                     Call_VaultEnumerateItems h # tr @ [Call_VaultFree items])))"

section \<open>The public functions\<close>

definition VaultIDWebCredentials :: UUID where
  "VaultIDWebCredentials =
     [0x42, 0xc4, 0xf4, 0x4b, 0x8a, 0x9b, 0xa0, 0x41, 0xb3, 0x80, 0xdd, 0x4a, 0x70, 0x4d, 0xdb, 0x28]"

definition Open :: "'s vaultcli \<Rightarrow> bool \<Rightarrow> UUID \<Rightarrow> 's \<Rightarrow> ('s, error + Vault) called" where
  "Open cli useAPI7 vaultID s =
     (case sysVaultOpenVault cli vaultID s of
        (Inl err, s1, tr1) \<Rightarrow> Some (Inl err, s1, tr1)
      | (Inr h, s1, tr1) \<Rightarrow>
          (case sysVaultGetInformationString cli h vaultInformationKindName s1 of
             None \<Rightarrow> None
           | Some (Inl err, s2, tr2) \<Rightarrow> Some (Inl err, s2, tr1 @ tr2)
           | Some (Inr name, s2, tr2) \<Rightarrow>
               (case sysVaultGetInformationString cli h
                       (if useAPI7 then vaultInformationKindPath7 else vaultInformationKindPath8)
                       s2 of
                  None \<Rightarrow> None
                | Some (Inl err, s3, tr3) \<Rightarrow> Some (Inl err, s3, tr1 @ tr2 @ tr3)
                | Some (Inr path, s3, tr3) \<Rightarrow>
                    Some (Inr \<lparr>VaultID = vaultID, VaultName = name, Path = path, handle = h\<rparr>,
                          s3, tr1 @ tr2 @ tr3))))"

definition OpenWebCredentials :: "'s vaultcli \<Rightarrow> bool \<Rightarrow> 's \<Rightarrow> ('s, error + Vault) called" where
  "OpenWebCredentials cli useAPI7 s = Open cli useAPI7 VaultIDWebCredentials s"

definition List' :: "'s vaultcli \<Rightarrow> 's \<Rightarrow> (error + UUID list) outcome \<times> 's \<times> event list" where
  "List' cli s = sysVaultEnumerateVaults cli s"

text \<open>
  \<^verbatim>\<open>Close\<close> has no result: the error of \<^verbatim>\<open>sysVaultCloseVault\<close> is dropped, and the
  handle of the vault object is overwritten. The caller is left with the vault object.
\<close>

definition Close :: "'s vaultcli \<Rightarrow> Vault \<Rightarrow> 's \<Rightarrow> Vault \<times> 's \<times> event list" where
  "Close cli t s =
     (case sysVaultCloseVault cli (handle t) s of
        (err, s1, tr) \<Rightarrow> (t\<lparr>handle := InvalidHandle\<rparr>, s1, tr))"

definition Items :: "'s vaultcli \<Rightarrow> bool \<Rightarrow> Vault \<Rightarrow> 's \<Rightarrow> ('s, error + VaultItem list) called" where
  "Items cli useAPI7 t s = sysVaultEnumerateItems cli useAPI7 (handle t) s"

section \<open>Notions used to state the properties\<close>

text \<open>
  The outcomes of the detail fetches of a listing, one per descriptor and in the order of
  the enumeration: each fetch starts in the state the previous one left. \<open>successes\<close>
  keeps the items of the fetches that returned no error.
\<close>

fun fetch_outcomes ::
  "(uintptr \<Rightarrow> 's \<Rightarrow> ('s, error + VaultItem) called) \<Rightarrow> uintptr list \<Rightarrow> 's \<Rightarrow>
     (error + VaultItem) list option" where
  "fetch_outcomes fetch [] s = Some []"
| "fetch_outcomes fetch (p # ps) s =
     (case fetch p s of
        None \<Rightarrow> None
      | Some (r, s1, tr) \<Rightarrow>
          (case fetch_outcomes fetch ps s1 of None \<Rightarrow> None | Some rs \<Rightarrow> Some (r # rs)))"

fun successes :: "(error + VaultItem) list \<Rightarrow> VaultItem list" where
  "successes [] = []"
| "successes (Inl err # rs) = successes rs"
| "successes (Inr item # rs) = item # successes rs"

text \<open>
  Every wide string of the native side is terminated: in every native state, a scan
  from any address meets a zero code unit.
\<close>

definition wstrings_terminated :: "'s vaultcli \<Rightarrow> bool" where
  "wstrings_terminated cli = (\<forall>s p. \<exists>k. read16 (memory_of cli s) (p + k * 2) = 0)"

section \<open>An example native side\<close>

text \<open>
  Building a memory. \<open>field off w v rest\<close> is an object whose \<open>w\<close> bytes at offset
  \<open>off\<close> are the little-endian bytes of \<open>v\<close> and whose other bytes are those of
  \<open>rest\<close>; \<open>place base sz obj rest\<close> is a memory with the \<open>sz\<close> bytes of \<open>obj\<close> at
  \<open>base\<close>.
\<close>

definition field :: "uintptr \<Rightarrow> uintptr \<Rightarrow> 64 word \<Rightarrow> (uintptr \<Rightarrow> byte) \<Rightarrow> uintptr \<Rightarrow> byte" where
  "field off w v rest =
     (\<lambda>x. if x - off < w then ucast (drop_bit (8 * unat (x - off)) v) else rest x)"

definition place :: "uintptr \<Rightarrow> uintptr \<Rightarrow> (uintptr \<Rightarrow> byte) \<Rightarrow> memory \<Rightarrow> memory" where
  "place base sz obj rest = (\<lambda>a. if a - base < sz then obj (a - base) else rest a)"

definition zeros :: "uintptr \<Rightarrow> byte" where
  "zeros = (\<lambda>x. 0)"

text \<open>
  Item records whose identifier starts with the byte \<open>k\<close>: the name is the wide string
  at \<open>0x2000\<close>, resource and identity are the element at \<open>0x3000\<close>, the authenticator
  is the element at \<open>0x3020\<close>, and the file time is ten ticks of 100 nanoseconds after
  the Unix epoch. The current layout has the (null) package identifier before the file
  time.
\<close>

definition demo_item7 :: "64 word \<Rightarrow> uintptr \<Rightarrow> byte" where
  "demo_item7 k =
     field 0 1 k (field 16 8 0x2000 (field 24 8 0x3000 (field 32 8 0x3000
       (field 40 8 0x3020 (field 48 8 116444736000000010 zeros)))))"

definition demo_item8 :: "64 word \<Rightarrow> uintptr \<Rightarrow> byte" where
  "demo_item8 k =
     field 0 1 k (field 16 8 0x2000 (field 24 8 0x3000 (field 32 8 0x3000
       (field 40 8 0x3020 (field 56 8 116444736000000010 zeros)))))"

text \<open>
  Elements: a string element (role id 1) whose data is at \<open>0x2000\<close>, a byte-array
  element (role id 2) of the 2 bytes at \<open>0x2010\<close>, an element of the boolean type (tag
  0, role id 3) with a payload byte, and a byte-array element (role id 4) of length 0.
\<close>

definition demo_string_element :: "uintptr \<Rightarrow> byte" where
  "demo_string_element = field 0 4 1 (field 8 4 7 (field 16 8 0x2000 zeros))"

definition demo_bytes_element :: "uintptr \<Rightarrow> byte" where
  "demo_bytes_element = field 0 4 2 (field 8 4 8 (field 16 4 2 (field 24 8 0x2010 zeros)))"

definition demo_bool_element :: "uintptr \<Rightarrow> byte" where
  "demo_bool_element = field 0 4 3 (field 8 4 0 (field 16 1 1 zeros))"

definition demo_empty_element :: "uintptr \<Rightarrow> byte" where
  "demo_empty_element = field 0 4 4 (field 8 4 8 (field 16 4 0 (field 24 8 0x2010 zeros)))"

text \<open>
  The memory: the enumeration buffer of three current-layout records at \<open>0x1000\<close>
  (80 bytes each), the detail records of the first and the third at \<open>0x1100\<close> and
  \<open>0x1150\<close>, one legacy-layout record at \<open>0x1800\<close>, the wide string "ab" with its
  zero unit at \<open>0x2000\<close>, the bytes "pw" at \<open>0x2010\<close>, and the elements from
  \<open>0x3000\<close>; every other byte is zero.
\<close>

definition demo_mem :: memory where
  "demo_mem =
     place 0x1000 80 (demo_item8 1) (place 0x1050 80 (demo_item8 2)
     (place 0x10A0 80 (demo_item8 3) (place 0x1100 80 (demo_item8 1)
     (place 0x1150 80 (demo_item8 3) (place 0x1800 72 (demo_item7 1)
     (place 0x2000 6 (field 0 2 0x61 (field 2 2 0x62 zeros))
     (place 0x2010 2 (field 0 2 0x7770 zeros)
     (place 0x3000 24 demo_string_element (place 0x3020 32 demo_bytes_element
     (place 0x3040 17 demo_bool_element (place 0x3060 32 demo_empty_element
     zeros)))))))))))"

text \<open>
  The native side: the state counts the live native allocations. The handle 7 is the one
  open vault; it enumerates the three records, and the detail of the second cannot be
  fetched (status 5, access denied). Status 6 is an invalid handle, 1168 is not found,
  and 8 (out of memory) is what the enumeration of the vaults returns once four
  allocations are live.
\<close>

definition demo_cli :: "nat vaultcli" where
  "demo_cli =
     \<lparr>memory_of = (\<lambda>s. demo_mem),
      VaultEnumerateVaults = (\<lambda>s. if s < 4 then ((0, 0, 0), Suc s) else ((8, 0, 0), s)),
      VaultOpenVault = (\<lambda>i s. if i = VaultIDWebCredentials then ((0, 7), s) else ((1168, 0), s)),
      VaultCloseVault = (\<lambda>h s. (if h = 7 then 0 else 6, s)),
      VaultGetInformation = (\<lambda>h kind s. if h = 7 then ((0, 0x2000), s) else ((6, 0), s)),
      VaultEnumerateItems = (\<lambda>h s. if h = 7 then ((0, 3, 0x1000), Suc s) else ((6, 0, 0), s)),
      VaultGetItem = (\<lambda>h i res ident sid s.
        if h = 7 \<and> hd i = 1 then ((0, 0x1100), Suc s)
        else if h = 7 \<and> hd i = 3 then ((0, 0x1150), Suc s)
        else ((5, 0), s)),
      VaultFree = (\<lambda>p s. s - 1)\<rparr>"

definition demo_vault :: Vault where
  "demo_vault =
     \<lparr>VaultID = VaultIDWebCredentials, VaultName = go_literal ''ab'', Path = go_literal ''ab'',
      handle = 7\<rparr>"

text \<open>The descriptors that the range loops copy out of the example memory.\<close>

definition demo_descriptor7 :: "byte \<Rightarrow> sysVaultItem7" where
  "demo_descriptor7 k =
     \<lparr>ID7 = k # replicate 15 0, Name7 = 0x2000, Resource7 = 0x3000, Identity7 = 0x3000,
      Authenticator7 = 0x3020,
      Filetime7 = \<lparr>LowDateTime = 0xD53E800A, HighDateTime = 0x019DB1DE\<rparr>,
      Flags7 = 0, PropertiesCount7 = 0, Properties7 = 0\<rparr>"

definition demo_descriptor8 :: "byte \<Rightarrow> sysVaultItem8" where
  "demo_descriptor8 k =
     \<lparr>ID8 = k # replicate 15 0, Name8 = 0x2000, Resource8 = 0x3000, Identity8 = 0x3000,
      Authenticator8 = 0x3020, PackageSid8 = 0,
      Filetime8 = \<lparr>LowDateTime = 0xD53E800A, HighDateTime = 0x019DB1DE\<rparr>,
      Flags8 = 0, PropertiesCount8 = 0, Properties8 = 0\<rparr>"

definition demo_item :: "byte \<Rightarrow> VaultItem" where
  "demo_item k =
     \<lparr>ID = k # replicate 15 0, Name = go_literal ''ab'',
      Resource = Some (VaultItemElementString 1 (go_literal ''ab'')),
      Identity = Some (VaultItemElementString 1 (go_literal ''ab'')),
      Authenticator = Some (VaultItemElementByteArray 2 [0x70, 0x77]),
      LastModified = Instant 1000\<rparr>"

section \<open>Auxiliary facts\<close>

lemma rd_bind_Some [simp]:
  "rd_bind (Some (x, acc)) f =
     (case f x of None \<Rightarrow> None | Some (y, acc') \<Rightarrow> Some (y, acc @ acc'))"
  by (simp add: rd_bind_def)

lemma rd_bind_None [simp]: "rd_bind None f = None"
  by (simp add: rd_bind_def)

lemma fst_rd_bind:
  "map_option fst (rd_bind r f) = Option.bind (map_option fst r) (\<lambda>x. map_option fst (f x))"
  by (cases r) (auto split: option.splits)

lemma read_bytes_numeral [simp]:
  "read_bytes m a (numeral k) = m a # read_bytes m (a + 1) (pred_numeral k)"
  by (simp add: numeral_eq_Suc)

lemma load16s_numeral [simp]:
  "load16s m a (numeral k) =
     (case load16s m (a + 2) (pred_numeral k) of
        None \<Rightarrow> None
      | Some (us, acc) \<Rightarrow> Some (read16 m a # us, (a, 2) # acc))"
  by (simp add: numeral_eq_Suc)

lemmas demo_defs =
  demo_mem_def place_def field_def zeros_def demo_item7_def demo_item8_def
  demo_string_element_def demo_bytes_element_def demo_bool_element_def demo_empty_element_def

section \<open>The wide-string decoder and the byte copier\<close>

text \<open>The scan over "ab" and its zero unit: three units are read, the last is the zero.\<close>

lemma utf16_scan_ab:
  assumes "read16 m wstr = 0x61" "read16 m (wstr + 2) = 0x62" "read16 m (wstr + 4) = 0"
  shows "utf16_scan m wstr 0 = Some (2, [(wstr, 2), (wstr + 2, 2), (wstr + 4, 2)])"
proof -
  have at2: "utf16_scan m wstr 2 = Some (2, [(wstr + 4, 2)])"
    using assms by (subst utf16_scan.simps) simp
  have at1: "utf16_scan m wstr 1 = Some (2, [(wstr + 2, 2), (wstr + 4, 2)])"
    using assms at2 by (subst utf16_scan.simps) simp
  show ?thesis
    using assms at1 by (subst utf16_scan.simps) simp
qed

lemma decode_ab: "string_of_runes (utf16_Decode [0x61, 0x62]) = go_literal ''ab''"
  by (simp add: string_of_runes_def go_literal_def surr1_def surr3_def encoderune_def)

text \<open>
  The whole trace of the decoder on "ab": the scan reads the units 0, 1 and 2, and the
  decoding of the slice of length 2 reads the units 0 and 1 again.
\<close>

lemma decoder_trace_ab:
  assumes "wstr \<noteq> 0" "read16 m wstr = 0x61" "read16 m (wstr + 2) = 0x62"
    "read16 m (wstr + 4) = 0"
  shows "utf16PtrToString m wstr =
    Some (go_literal ''ab'', [(wstr, 2), (wstr + 2, 2), (wstr + 4, 2), (wstr, 2), (wstr + 2, 2)])"
  using assms(1,2,3) utf16_scan_ab [OF assms(2-4)] decode_ab
  by (simp add: utf16PtrToString_def rd_return_def)

lemma demo_wstring:
  "read16 demo_mem 0x2000 = 0x61" "read16 demo_mem 0x2002 = 0x62" "read16 demo_mem 0x2004 = 0"
  by (simp_all add: read16_def demo_defs)

text \<open>
  Claim C7. For the null pointer, \<^verbatim>\<open>utf16PtrToString\<close> returns the empty string and
  \<^verbatim>\<open>goBytes\<close> returns the empty byte sequence, whatever the length argument; both
  return, and neither reads memory.
\<close>

theorem null_pointers_decode_empty:
  "utf16PtrToString m 0 = Some (GoString [], []) \<and> goBytes m 0 len = Some ([], [])"
  by (simp add: utf16PtrToString_def goBytes_def rd_return_def)

text \<open>
  Claim C8. For a non-null buffer holding the code units of "ab" followed by a zero unit,
  \<^verbatim>\<open>utf16PtrToString\<close> returns the string "ab", and the code units it reads are
  exactly the three units of the buffer up to and including the zero unit: no unit past
  the first zero is read. (The first two units are read twice, by the scan and by the
  decoding; see \<open>decoder_trace_ab\<close>.)
\<close>

theorem utf16PtrToString_ab:
  assumes "wstr \<noteq> 0" "read16 m wstr = 0x61" "read16 m (wstr + 2) = 0x62"
    "read16 m (wstr + 4) = 0"
  shows "map_option fst (utf16PtrToString m wstr) = Some (go_literal ''ab'') \<and>
    map_option (set \<circ> snd) (utf16PtrToString m wstr) =
      Some {(wstr, 2), (wstr + 2, 2), (wstr + 4, 2)}"
  using decoder_trace_ab [OF assms] by auto

theorem utf16PtrToString_ab_witness:
  "(0x2000 :: uintptr) \<noteq> 0 \<and> read16 demo_mem 0x2000 = 0x61 \<and>
   read16 demo_mem (0x2000 + 2) = 0x62 \<and> read16 demo_mem (0x2000 + 4) = 0 \<and>
   map_option fst (utf16PtrToString demo_mem 0x2000) = Some (go_literal ''ab'') \<and>
   map_option (set \<circ> snd) (utf16PtrToString demo_mem 0x2000) =
     Some {(0x2000, 2), (0x2002, 2), (0x2004, 2)}"
proof -
  have h: "(0x2000 :: uintptr) \<noteq> 0" "read16 demo_mem 0x2000 = 0x61"
    "read16 demo_mem (0x2000 + 2) = 0x62" "read16 demo_mem (0x2000 + 4) = 0"
    using demo_wstring by simp_all
  show ?thesis
    using h utf16PtrToString_ab [OF h] by simp
qed

section \<open>The element decoder\<close>

text \<open>
  Claim C9. For a non-null element of the byte-array type whose length field is 0,
  \<^verbatim>\<open>convertToVaultItemElement\<close> returns a byte-array element (not nil) that carries the
  role id and the empty byte sequence; the header, the value pointer and the length are
  read, and no byte is copied.
\<close>

theorem byte_array_of_length_zero:
  assumes "elem \<noteq> 0" "read32 m (elem + 8) = vaultElementTypeByteArray"
    "read32 m (elem + 16) = 0"
  shows "convertToVaultItemElement m elem =
    Some (Some (VaultItemElementByteArray (read32 m elem) []),
          [(elem + 8, 4), (elem, 4), (elem + 24, 8), (elem + 16, 4)])"
  using assms
  by (simp add: convertToVaultItemElement_def load32_def load64_def goBytes_def load_bytes_def
      rd_return_def vaultElementTypeString_def vaultElementTypeByteArray_def)

theorem byte_array_of_length_zero_witness:
  "(0x3060 :: uintptr) \<noteq> 0 \<and> read32 demo_mem (0x3060 + 8) = vaultElementTypeByteArray \<and>
   read32 demo_mem (0x3060 + 16) = 0 \<and>
   convertToVaultItemElement demo_mem 0x3060 =
     Some (Some (VaultItemElementByteArray 4 []),
           [(0x3068, 4), (0x3060, 4), (0x3078, 8), (0x3070, 4)])"
proof -
  have h: "(0x3060 :: uintptr) \<noteq> 0"
    "read32 demo_mem (0x3060 + 8) = vaultElementTypeByteArray"
    "read32 demo_mem (0x3060 + 16) = 0"
    by (simp_all add: read32_def demo_defs vaultElementTypeByteArray_def)
  have i: "read32 demo_mem 0x3060 = 4"
    by (simp add: read32_def demo_defs)
  show ?thesis
    using h i byte_array_of_length_zero [OF h] by simp
qed

text \<open>
  Claim C1, as stated, fails: the package has no element variant for an unsupported type.
  The element at \<open>0x3040\<close> of the example memory is non-null and has the type tag 0
  (boolean); the decoder returns nil for it.
\<close>

theorem unsupported_tag_counterexample:
  "read32 demo_mem (0x3040 + 8) = 0 \<and>
   convertToVaultItemElement demo_mem 0x3040 = Some (None, [(0x3048, 4)])"
  by (simp add: convertToVaultItemElement_def load32_def rd_return_def read32_def demo_defs
      vaultElementTypeString_def vaultElementTypeByteArray_def)

text \<open>
  Claim C1, amended. For a non-null element whose type tag is neither the string type nor
  the byte-array type, \<^verbatim>\<open>convertToVaultItemElement\<close> returns nil; it returns (it does
  not fail), and the only memory it reads is the type tag of the header: no trailing
  field is read.
\<close>

theorem unsupported_tag_yields_nil:
  assumes "elem \<noteq> 0" "read32 m (elem + 8) \<noteq> vaultElementTypeString"
    "read32 m (elem + 8) \<noteq> vaultElementTypeByteArray"
  shows "convertToVaultItemElement m elem = Some (None, [(elem + 8, 4)])"
  using assms by (simp add: convertToVaultItemElement_def load32_def rd_return_def)

theorem unsupported_tag_yields_nil_witness:
  "(0x3040 :: uintptr) \<noteq> 0 \<and> read32 demo_mem (0x3040 + 8) \<noteq> vaultElementTypeString \<and>
   read32 demo_mem (0x3040 + 8) \<noteq> vaultElementTypeByteArray \<and>
   convertToVaultItemElement demo_mem 0x3040 = Some (None, [(0x3040 + 8, 4)])"
proof -
  have h: "(0x3040 :: uintptr) \<noteq> 0"
    "read32 demo_mem (0x3040 + 8) \<noteq> vaultElementTypeString"
    "read32 demo_mem (0x3040 + 8) \<noteq> vaultElementTypeByteArray"
    by (simp_all add: read32_def demo_defs vaultElementTypeString_def
        vaultElementTypeByteArray_def)
  show ?thesis
    using h unsupported_tag_yields_nil [OF h] by simp
qed

section \<open>The element accessors\<close>

text \<open>
  Claim C10. Both accessors are defined on both element variants, and they agree: on a
  string element \<^verbatim>\<open>AsByteArray\<close> is the byte conversion of what \<^verbatim>\<open>AsString\<close> returns,
  and on a byte-array element \<^verbatim>\<open>AsString\<close> is the string conversion of what
  \<^verbatim>\<open>AsByteArray\<close> returns.
\<close>

theorem accessors_consistent:
  "AsByteArray (VaultItemElementString i s) =
     bytes_of_string (AsString (VaultItemElementString i s)) \<and>
   AsString (VaultItemElementByteArray i b) =
     string_of_bytes (AsByteArray (VaultItemElementByteArray i b))"
  by simp

section \<open>The record marshalers\<close>

lemma replicate_numeral_Cons [simp]:
  "replicate (numeral k) x = x # replicate (pred_numeral k) x"
  by (simp add: numeral_eq_Suc)

lemma demo_item7_fields:
  "read_bytes demo_mem 0x1800 16 = 1 # replicate 15 0"
  "read64 demo_mem (0x1800 + 16) = 0x2000"
  "read64 demo_mem (0x1800 + 24) = 0x3000"
  "read64 demo_mem (0x1800 + 32) = 0x3000"
  "read64 demo_mem (0x1800 + 40) = 0x3020"
  "read32 demo_mem (0x1800 + 48) = 0xD53E800A"
  "read32 demo_mem (0x1800 + 52) = 0x019DB1DE"
  by (simp_all add: read64_def read32_def demo_defs)

lemma demo_item8_fields:
  "read_bytes demo_mem 0x1000 16 = 1 # replicate 15 0"
  "read64 demo_mem (0x1000 + 16) = 0x2000"
  "read64 demo_mem (0x1000 + 24) = 0x3000"
  "read64 demo_mem (0x1000 + 32) = 0x3000"
  "read64 demo_mem (0x1000 + 40) = 0x3020"
  "read32 demo_mem (0x1000 + 56) = 0xD53E800A"
  "read32 demo_mem (0x1000 + 60) = 0x019DB1DE"
  by (simp_all add: read64_def read32_def demo_defs)

text \<open>
  Claim C3. Take a legacy-layout record at \<open>p7\<close> (in a memory \<open>m7\<close>) and a
  current-layout record at \<open>p8\<close> (in a memory \<open>m8\<close>) with the same logical fields:
  the same identifier bytes, names that decode alike, resource, identity and
  authenticator elements that decode alike, and the same file time. Then
  \<^verbatim>\<open>convertToVaultItem7\<close> and \<^verbatim>\<open>convertToVaultItem8\<close> produce the same item (and the
  one returns exactly when the other does).
\<close>

theorem layout_transparent:
  assumes "read_bytes m7 p7 16 = read_bytes m8 p8 16"
    and "map_option fst (utf16PtrToString m7 (read64 m7 (p7 + 16))) =
         map_option fst (utf16PtrToString m8 (read64 m8 (p8 + 16)))"
    and "map_option fst (convertToVaultItemElement m7 (read64 m7 (p7 + 24))) =
         map_option fst (convertToVaultItemElement m8 (read64 m8 (p8 + 24)))"
    and "map_option fst (convertToVaultItemElement m7 (read64 m7 (p7 + 32))) =
         map_option fst (convertToVaultItemElement m8 (read64 m8 (p8 + 32)))"
    and "map_option fst (convertToVaultItemElement m7 (read64 m7 (p7 + 40))) =
         map_option fst (convertToVaultItemElement m8 (read64 m8 (p8 + 40)))"
    and "read32 m7 (p7 + 48) = read32 m8 (p8 + 56)"
    and "read32 m7 (p7 + 52) = read32 m8 (p8 + 60)"
  shows "map_option fst (convertToVaultItem7 m7 p7) = map_option fst (convertToVaultItem8 m8 p8)"
  using assms
  by (simp add: convertToVaultItem7_def convertToVaultItem8_def fst_rd_bind load_bytes_def
      load64_def load_Filetime_def rd_return_def add.assoc del: rd_bind_Some)

theorem layout_transparent_witness:
  "read_bytes demo_mem 0x1800 16 = read_bytes demo_mem 0x1000 16 \<and>
   map_option fst (utf16PtrToString demo_mem (read64 demo_mem (0x1800 + 16))) =
     map_option fst (utf16PtrToString demo_mem (read64 demo_mem (0x1000 + 16))) \<and>
   map_option fst (convertToVaultItemElement demo_mem (read64 demo_mem (0x1800 + 24))) =
     map_option fst (convertToVaultItemElement demo_mem (read64 demo_mem (0x1000 + 24))) \<and>
   map_option fst (convertToVaultItemElement demo_mem (read64 demo_mem (0x1800 + 32))) =
     map_option fst (convertToVaultItemElement demo_mem (read64 demo_mem (0x1000 + 32))) \<and>
   map_option fst (convertToVaultItemElement demo_mem (read64 demo_mem (0x1800 + 40))) =
     map_option fst (convertToVaultItemElement demo_mem (read64 demo_mem (0x1000 + 40))) \<and>
   read32 demo_mem (0x1800 + 48) = read32 demo_mem (0x1000 + 56) \<and>
   read32 demo_mem (0x1800 + 52) = read32 demo_mem (0x1000 + 60) \<and>
   map_option fst (convertToVaultItem7 demo_mem 0x1800) =
     map_option fst (convertToVaultItem8 demo_mem 0x1000)"
proof -
  have h: "read_bytes demo_mem 0x1800 16 = read_bytes demo_mem 0x1000 16"
    "map_option fst (utf16PtrToString demo_mem (read64 demo_mem (0x1800 + 16))) =
     map_option fst (utf16PtrToString demo_mem (read64 demo_mem (0x1000 + 16)))"
    "map_option fst (convertToVaultItemElement demo_mem (read64 demo_mem (0x1800 + 24))) =
     map_option fst (convertToVaultItemElement demo_mem (read64 demo_mem (0x1000 + 24)))"
    "map_option fst (convertToVaultItemElement demo_mem (read64 demo_mem (0x1800 + 32))) =
     map_option fst (convertToVaultItemElement demo_mem (read64 demo_mem (0x1000 + 32)))"
    "map_option fst (convertToVaultItemElement demo_mem (read64 demo_mem (0x1800 + 40))) =
     map_option fst (convertToVaultItemElement demo_mem (read64 demo_mem (0x1000 + 40)))"
    "read32 demo_mem (0x1800 + 48) = read32 demo_mem (0x1000 + 56)"
    "read32 demo_mem (0x1800 + 52) = read32 demo_mem (0x1000 + 60)"
    by (simp_all only: demo_item7_fields demo_item8_fields)
  show ?thesis
    using h layout_transparent [OF h] by simp
qed

section \<open>Status codes and errors\<close>

text \<open>
  Claim C5, as stated, fails: \<^verbatim>\<open>Close\<close> has no result. With a native close call that
  fails with status 5, \<^verbatim>\<open>sysVaultCloseVault\<close> returns the error to \<^verbatim>\<open>Close\<close>, and
  what the caller of \<^verbatim>\<open>Close\<close> is left with is what it is left with when the native
  call succeeds.
\<close>

theorem close_failure_counterexample:
  "fst (sysVaultCloseVault (demo_cli\<lparr>VaultCloseVault := (\<lambda>h s. (5, s))\<rparr>) 7 0) = Some (Errno 5) \<and>
   Close (demo_cli\<lparr>VaultCloseVault := (\<lambda>h s. (5, s))\<rparr>) demo_vault 0 =
   Close (demo_cli\<lparr>VaultCloseVault := (\<lambda>h s. (0, s))\<rparr>) demo_vault 0"
  by (simp add: sysVaultCloseVault_def Close_def demo_cli_def demo_vault_def)

text \<open>
  Claim C5, amended. When the native close call fails, \<^verbatim>\<open>sysVaultCloseVault\<close> returns
  an error carrying the non-zero status to its caller \<^verbatim>\<open>Close\<close>; \<^verbatim>\<open>Close\<close> drops
  it: it returns nothing, and the vault is left with the invalid handle, as after a
  successful close.
\<close>

theorem close_drops_error:
  assumes "VaultCloseVault cli (handle t) s = (ret, s1)" and "ret \<noteq> 0"
  shows "sysVaultCloseVault cli (handle t) s =
           (Some (Errno ret), s1, [Call_VaultCloseVault (handle t)]) \<and>
         Close cli t s = (t\<lparr>handle := InvalidHandle\<rparr>, s1, [Call_VaultCloseVault (handle t)])"
  using assms by (simp add: sysVaultCloseVault_def Close_def)

theorem close_drops_error_witness:
  "VaultCloseVault demo_cli (handle (demo_vault\<lparr>handle := 9\<rparr>)) 0 = (6, 0) \<and> (6 :: uintptr) \<noteq> 0 \<and>
   sysVaultCloseVault demo_cli (handle (demo_vault\<lparr>handle := 9\<rparr>)) 0 =
     (Some (Errno 6), 0, [Call_VaultCloseVault 9]) \<and>
   Close demo_cli (demo_vault\<lparr>handle := 9\<rparr>) 0 =
     (demo_vault\<lparr>handle := InvalidHandle\<rparr>, 0, [Call_VaultCloseVault 9])"
proof -
  have h: "VaultCloseVault demo_cli (handle (demo_vault\<lparr>handle := 9\<rparr>)) 0 = (6, 0)"
    "(6 :: uintptr) \<noteq> 0"
    by (simp_all add: demo_cli_def)
  show ?thesis
    using h close_drops_error [OF h] by simp
qed

text \<open>
  Claim C6, as stated, fails in its second part: the package has no named error kinds.
  The one error it returns is \<^verbatim>\<open>syscall.Errno\<close> of the status; the not-found status
  (1168) of an open call and the access-denied status (5) of a detail fetch come back in
  that same form.
\<close>

theorem named_error_kinds_counterexample:
  "sysVaultOpenVault demo_cli (replicate 16 0) 0 =
     (Inl (Errno 1168), 0, [Call_VaultOpenVault (replicate 16 0)]) \<and>
   sysVaultGetItem8 demo_cli 7 (demo_descriptor8 2) 1 =
     Some (Inl (Errno 5), 1, [Call_VaultGetItem 7 (2 # replicate 15 0) 0x3000 0x3000 (Some 0)])"
  by (simp add: sysVaultOpenVault_def sysVaultGetItem8_def demo_cli_def demo_descriptor8_def
      VaultIDWebCredentials_def)

text \<open>
  Claim C6, amended. For every non-zero status code that a native call returns, the
  wrapping function (enumerate vaults, open, close, get information, enumerate items, get
  item in either layout) returns the error \<^verbatim>\<open>syscall.Errno\<close> carrying exactly that
  code, right after the native call and with nothing freed; every code, the not-found and
  access-denied codes included, is returned in this one form.
\<close>

theorem native_failure_is_errno:
  "(VaultEnumerateVaults cli s = ((r1, count1, guids), s1) \<and> r1 \<noteq> 0 \<longrightarrow>
      sysVaultEnumerateVaults cli s = (Return (Inl (Errno r1)), s1, [Call_VaultEnumerateVaults])) \<and>
   (VaultOpenVault cli i s = ((r2, h2), s2) \<and> r2 \<noteq> 0 \<longrightarrow>
      sysVaultOpenVault cli i s = (Inl (Errno r2), s2, [Call_VaultOpenVault i])) \<and>
   (VaultCloseVault cli h s = (r3, s3) \<and> r3 \<noteq> 0 \<longrightarrow>
      sysVaultCloseVault cli h s = (Some (Errno r3), s3, [Call_VaultCloseVault h])) \<and>
   (VaultGetInformation cli h kind s = ((r4, val), s4) \<and> r4 \<noteq> 0 \<longrightarrow>
      sysVaultGetInformationString cli h kind s =
        Some (Inl (Errno r4), s4, [Call_VaultGetInformation h kind])) \<and>
   (VaultEnumerateItems cli h s = ((r5, count5, items), s5) \<and> r5 \<noteq> 0 \<longrightarrow>
      sysVaultEnumerateItems cli useAPI7 h s =
        Some (Inl (Errno r5), s5, [Call_VaultEnumerateItems h])) \<and>
   (VaultGetItem cli h (ID7 d7) (Resource7 d7) (Identity7 d7) None s = ((r6, item6), s6) \<and>
      r6 \<noteq> 0 \<longrightarrow>
      sysVaultGetItem7 cli h d7 s =
        Some (Inl (Errno r6), s6,
              [Call_VaultGetItem h (ID7 d7) (Resource7 d7) (Identity7 d7) None])) \<and>
   (VaultGetItem cli h (ID8 d8) (Resource8 d8) (Identity8 d8) (Some (PackageSid8 d8)) s =
      ((r7, item7), s7) \<and> r7 \<noteq> 0 \<longrightarrow>
      sysVaultGetItem8 cli h d8 s =
        Some (Inl (Errno r7), s7,
              [Call_VaultGetItem h (ID8 d8) (Resource8 d8) (Identity8 d8)
                 (Some (PackageSid8 d8))]))"
  by (simp add: sysVaultEnumerateVaults_def sysVaultOpenVault_def sysVaultCloseVault_def
      sysVaultGetInformationString_def sysVaultEnumerateItems_def sysVaultGetItem7_def
      sysVaultGetItem8_def)


theorem native_failure_is_errno_witness:
  "VaultEnumerateVaults demo_cli 4 = ((8, 0, 0), 4) \<and> (8 :: uintptr) \<noteq> 0 \<and>
   sysVaultEnumerateVaults demo_cli 4 = (Return (Inl (Errno 8)), 4, [Call_VaultEnumerateVaults]) \<and>
   VaultOpenVault demo_cli (replicate 16 0) 4 = ((1168, 0), 4) \<and> (1168 :: uintptr) \<noteq> 0 \<and>
   sysVaultOpenVault demo_cli (replicate 16 0) 4 =
     (Inl (Errno 1168), 4, [Call_VaultOpenVault (replicate 16 0)]) \<and>
   VaultCloseVault demo_cli 9 4 = (6, 4) \<and> (6 :: uintptr) \<noteq> 0 \<and>
   sysVaultCloseVault demo_cli 9 4 = (Some (Errno 6), 4, [Call_VaultCloseVault 9]) \<and>
   VaultGetInformation demo_cli 9 vaultInformationKindName 4 = ((6, 0), 4) \<and>
   sysVaultGetInformationString demo_cli 9 vaultInformationKindName 4 =
     Some (Inl (Errno 6), 4, [Call_VaultGetInformation 9 vaultInformationKindName]) \<and>
   VaultEnumerateItems demo_cli 9 4 = ((6, 0, 0), 4) \<and>
   sysVaultEnumerateItems demo_cli False 9 4 =
     Some (Inl (Errno 6), 4, [Call_VaultEnumerateItems 9]) \<and>
   VaultGetItem demo_cli 9 (ID7 (demo_descriptor7 2)) (Resource7 (demo_descriptor7 2))
     (Identity7 (demo_descriptor7 2)) None 4 = ((5, 0), 4) \<and> (5 :: uintptr) \<noteq> 0 \<and>
   sysVaultGetItem7 demo_cli 9 (demo_descriptor7 2) 4 =
     Some (Inl (Errno 5), 4,
           [Call_VaultGetItem 9 (ID7 (demo_descriptor7 2)) (Resource7 (demo_descriptor7 2))
              (Identity7 (demo_descriptor7 2)) None]) \<and>
   VaultGetItem demo_cli 9 (ID8 (demo_descriptor8 2)) (Resource8 (demo_descriptor8 2))
     (Identity8 (demo_descriptor8 2)) (Some (PackageSid8 (demo_descriptor8 2))) 4 = ((5, 0), 4) \<and>
   sysVaultGetItem8 demo_cli 9 (demo_descriptor8 2) 4 =
     Some (Inl (Errno 5), 4,
           [Call_VaultGetItem 9 (ID8 (demo_descriptor8 2)) (Resource8 (demo_descriptor8 2))
              (Identity8 (demo_descriptor8 2)) (Some (PackageSid8 (demo_descriptor8 2)))])"
proof -
  have h: "VaultEnumerateVaults demo_cli 4 = ((8, 0, 0), 4)"
    "VaultOpenVault demo_cli (replicate 16 0) 4 = ((1168, 0), 4)"
    "VaultCloseVault demo_cli 9 4 = (6, 4)"
    "VaultGetInformation demo_cli 9 vaultInformationKindName 4 = ((6, 0), 4)"
    "VaultEnumerateItems demo_cli 9 4 = ((6, 0, 0), 4)"
    "VaultGetItem demo_cli 9 (ID7 (demo_descriptor7 2)) (Resource7 (demo_descriptor7 2))
       (Identity7 (demo_descriptor7 2)) None 4 = ((5, 0), 4)"
    "VaultGetItem demo_cli 9 (ID8 (demo_descriptor8 2)) (Resource8 (demo_descriptor8 2))
       (Identity8 (demo_descriptor8 2)) (Some (PackageSid8 (demo_descriptor8 2))) 4 = ((5, 0), 4)"
    by (simp_all add: demo_cli_def VaultIDWebCredentials_def)
  show ?thesis
    using h
      native_failure_is_errno [where cli = demo_cli and s = 4 and i = "replicate 16 0"
        and h = 9 and kind = vaultInformationKindName and ?d7.0 = "demo_descriptor7 2"
        and ?d8.0 = "demo_descriptor8 2" and ?useAPI7.0 = False
        and ?r1.0 = 8 and ?count1.0 = 0 and guids = 0 and ?s1.0 = 4
        and ?r2.0 = 1168 and ?h2.0 = 0 and ?s2.0 = 4 and ?r3.0 = 6 and ?s3.0 = 4
        and ?r4.0 = 6 and val = 0 and ?s4.0 = 4 and ?r5.0 = 6 and ?count5.0 = 0 and items = 0
        and ?s5.0 = 4 and ?r6.0 = 5 and ?item6.0 = 0 and ?s6.0 = 4
        and ?r7.0 = 5 and ?item7.0 = 0 and ?s7.0 = 4]
    by simp
qed

section \<open>Termination of the marshaling layer\<close>

lemma utf16_scan_returns:
  "read16 m (wstr + (len + of_nat n) * 2) = 0 \<Longrightarrow> \<exists>r. utf16_scan m wstr len = Some r"
proof (induction n arbitrary: len)
  case 0
  then show ?case
    by (subst utf16_scan.simps) simp
next
  case (Suc n)
  have "len + 1 + of_nat n = len + of_nat (Suc n)"
    by simp
  then have "read16 m (wstr + (len + 1 + of_nat n) * 2) = 0"
    using Suc.prems by (simp only:)
  then obtain r where "utf16_scan m wstr (len + 1) = Some r"
    using Suc.IH by blast
  then show ?case
    by (subst utf16_scan.simps) (auto simp: Let_def split: prod.splits)
qed

lemma load16s_returns: "\<exists>r. load16s m a n = Some r"
  by (induction n arbitrary: a) (auto split: option.splits)

lemma utf16PtrToString_returns:
  assumes "\<exists>k. read16 m (wstr + k * 2) = 0"
  shows "\<exists>r. utf16PtrToString m wstr = Some r"
proof -
  from assms obtain k where k: "read16 m (wstr + k * 2) = 0" ..
  have "read16 m (wstr + (0 + of_nat (unat k)) * 2) = 0"
    using k by simp
  then obtain len acc where "utf16_scan m wstr 0 = Some (len, acc)"
    using utf16_scan_returns by (metis surj_pair)
  moreover obtain us acc' where "load16s m wstr (nat (sint len)) = Some (us, acc')"
    using load16s_returns by (metis surj_pair)
  ultimately show ?thesis
    by (simp add: utf16PtrToString_def rd_return_def)
qed

lemma convertToVaultItemElement_returns:
  assumes "\<forall>p. \<exists>k. read16 m (p + k * 2) = 0"
  shows "\<exists>r. convertToVaultItemElement m elem = Some r"
proof -
  obtain v acc where "utf16PtrToString m (read64 m (elem + 16)) = Some (v, acc)"
    using utf16PtrToString_returns assms by (metis surj_pair)
  then show ?thesis
    by (simp add: convertToVaultItemElement_def load32_def load64_def goBytes_def
        load_bytes_def rd_return_def)
qed

lemma convertToVaultItem7_returns:
  assumes "\<forall>p. \<exists>k. read16 m (p + k * 2) = 0"
  shows "\<exists>r. convertToVaultItem7 m item = Some r"
proof -
  obtain name a0 where "utf16PtrToString m (read64 m (item + 16)) = Some (name, a0)"
    using utf16PtrToString_returns assms by (metis surj_pair)
  moreover obtain e1 a1 where
    "convertToVaultItemElement m (read64 m (item + 24)) = Some (e1, a1)"
    using convertToVaultItemElement_returns [OF assms] by (metis surj_pair)
  moreover obtain e2 a2 where
    "convertToVaultItemElement m (read64 m (item + 32)) = Some (e2, a2)"
    using convertToVaultItemElement_returns [OF assms] by (metis surj_pair)
  moreover obtain e3 a3 where
    "convertToVaultItemElement m (read64 m (item + 40)) = Some (e3, a3)"
    using convertToVaultItemElement_returns [OF assms] by (metis surj_pair)
  ultimately show ?thesis
    by (simp add: convertToVaultItem7_def load_bytes_def load64_def load_Filetime_def
        rd_return_def)
qed

lemma convertToVaultItem8_returns:
  assumes "\<forall>p. \<exists>k. read16 m (p + k * 2) = 0"
  shows "\<exists>r. convertToVaultItem8 m item = Some r"
proof -
  obtain name a0 where "utf16PtrToString m (read64 m (item + 16)) = Some (name, a0)"
    using utf16PtrToString_returns assms by (metis surj_pair)
  moreover obtain e1 a1 where
    "convertToVaultItemElement m (read64 m (item + 24)) = Some (e1, a1)"
    using convertToVaultItemElement_returns [OF assms] by (metis surj_pair)
  moreover obtain e2 a2 where
    "convertToVaultItemElement m (read64 m (item + 32)) = Some (e2, a2)"
    using convertToVaultItemElement_returns [OF assms] by (metis surj_pair)
  moreover obtain e3 a3 where
    "convertToVaultItemElement m (read64 m (item + 40)) = Some (e3, a3)"
    using convertToVaultItemElement_returns [OF assms] by (metis surj_pair)
  ultimately show ?thesis
    by (simp add: convertToVaultItem8_def load_bytes_def load64_def load_Filetime_def
        rd_return_def)
qed


section \<open>The listing\<close>

lemma loads_no_free [simp]: "filter is_VaultFree (loads acc) = []"
  by (induction acc) (auto simp: loads_def)

lemma sysVaultGetItem7_returns:
  assumes "wstrings_terminated cli"
  shows "\<exists>r s' tr. sysVaultGetItem7 cli h d s = Some (r, s', tr) \<and>
    length (filter is_VaultFree tr) = (case r of Inl e \<Rightarrow> 0 | Inr v \<Rightarrow> 1)"
proof -
  obtain ret item s1 where
    call: "VaultGetItem cli h (ID7 d) (Resource7 d) (Identity7 d) None s = ((ret, item), s1)"
    by (metis surj_pair)
  have "\<forall>p. \<exists>k. read16 (memory_of cli s1) (p + k * 2) = 0"
    using assms by (simp add: wstrings_terminated_def)
  then obtain v acc where "convertToVaultItem7 (memory_of cli s1) item = Some (v, acc)"
    using convertToVaultItem7_returns by (metis surj_pair)
  then show ?thesis
    using call by (auto simp: sysVaultGetItem7_def Let_def)
qed

lemma sysVaultGetItem8_returns:
  assumes "wstrings_terminated cli"
  shows "\<exists>r s' tr. sysVaultGetItem8 cli h d s = Some (r, s', tr) \<and>
    length (filter is_VaultFree tr) = (case r of Inl e \<Rightarrow> 0 | Inr v \<Rightarrow> 1)"
proof -
  obtain ret item s1 where
    call: "VaultGetItem cli h (ID8 d) (Resource8 d) (Identity8 d) (Some (PackageSid8 d)) s =
      ((ret, item), s1)"
    by (metis surj_pair)
  have "\<forall>p. \<exists>k. read16 (memory_of cli s1) (p + k * 2) = 0"
    using assms by (simp add: wstrings_terminated_def)
  then obtain v acc where "convertToVaultItem8 (memory_of cli s1) item = Some (v, acc)"
    using convertToVaultItem8_returns by (metis surj_pair)
  then show ?thesis
    using call by (auto simp: sysVaultGetItem8_def Let_def)
qed

lemma fetch_descriptor_returns:
  assumes "wstrings_terminated cli"
  shows "\<exists>r s' tr. fetch_descriptor cli useAPI7 h p s = Some (r, s', tr) \<and>
    length (filter is_VaultFree tr) = (case r of Inl e \<Rightarrow> 0 | Inr v \<Rightarrow> 1)"
proof (cases useAPI7)
  case True
  obtain r s' tr where
    "sysVaultGetItem7 cli h (read_sysVaultItem7 (memory_of cli s) p) s = Some (r, s', tr)"
    "length (filter is_VaultFree tr) = (case r of Inl e \<Rightarrow> 0 | Inr v \<Rightarrow> 1)"
    using sysVaultGetItem7_returns [OF assms] by blast
  then show ?thesis
    using True by (simp add: fetch_descriptor_def)
next
  case False
  obtain r s' tr where
    "sysVaultGetItem8 cli h (read_sysVaultItem8 (memory_of cli s) p) s = Some (r, s', tr)"
    "length (filter is_VaultFree tr) = (case r of Inl e \<Rightarrow> 0 | Inr v \<Rightarrow> 1)"
    using sysVaultGetItem8_returns [OF assms] by blast
  then show ?thesis
    using False by (simp add: fetch_descriptor_def)
qed

text \<open>
  The loop keeps the items of the successful fetches, in order, behind what it had; the
  frees in its trace are those of the detail records, one per item kept.
\<close>

lemma range_append_outcomes:
  assumes "\<And>p s. \<exists>r s' tr. fetch p s = Some (r, s', tr) \<and>
    length (filter is_VaultFree tr) = (case r of Inl e \<Rightarrow> 0 | Inr v \<Rightarrow> 1)"
  shows "\<exists>outs s' tr. fetch_outcomes fetch ps s = Some outs \<and> length outs = length ps \<and>
    range_append fetch ps result s = Some (result @ successes outs, s', tr) \<and>
    length (filter is_VaultFree tr) = length (successes outs)"
proof (induction ps arbitrary: result s)
  case Nil
  show ?case by simp
next
  case (Cons p ps)
  obtain r s1 tr1 where step: "fetch p s = Some (r, s1, tr1)"
    and frees: "length (filter is_VaultFree tr1) = (case r of Inl e \<Rightarrow> 0 | Inr v \<Rightarrow> 1)"
    using assms by blast
  show ?case
  proof (cases r)
    case (Inl err)
    obtain outs s' tr where "fetch_outcomes fetch ps s1 = Some outs" "length outs = length ps"
      "range_append fetch ps result s1 = Some (result @ successes outs, s', tr)"
      "length (filter is_VaultFree tr) = length (successes outs)"
      using Cons.IH by blast
    then show ?thesis
      using step frees Inl by simp
  next
    case (Inr item)
    obtain outs s' tr where "fetch_outcomes fetch ps s1 = Some outs" "length outs = length ps"
      "range_append fetch ps (result @ [item]) s1 =
         Some ((result @ [item]) @ successes outs, s', tr)"
      "length (filter is_VaultFree tr) = length (successes outs)"
      using Cons.IH by blast
    then show ?thesis
      using step frees Inr by simp
  qed
qed

lemma length_slice_addrs [simp]: "length (slice_addrs base sz count) = nat (sint count)"
  by (simp add: slice_addrs_def)

section \<open>The example listing\<close>

lemma demo_utf16: "map_option fst (utf16PtrToString demo_mem 0x2000) = Some (go_literal ''ab'')"
  using decoder_trace_ab [of "0x2000" demo_mem] demo_wstring by simp

lemma demo_string_elem:
  "map_option fst (convertToVaultItemElement demo_mem 0x3000) =
     Some (Some (VaultItemElementString 1 (go_literal ''ab'')))"
proof -
  have f: "read32 demo_mem 0x3008 = 7" "read32 demo_mem 0x3000 = 1"
    "read64 demo_mem 0x3010 = 0x2000"
    by (simp_all add: read32_def read64_def demo_defs)
  show ?thesis
    by (simp add: f demo_utf16 convertToVaultItemElement_def fst_rd_bind load32_def load64_def
        rd_return_def vaultElementTypeString_def vaultElementTypeByteArray_def
        del: rd_bind_Some)
qed

lemma demo_bytes_elem:
  "map_option fst (convertToVaultItemElement demo_mem 0x3020) =
     Some (Some (VaultItemElementByteArray 2 [0x70, 0x77]))"
proof -
  have f: "read32 demo_mem 0x3028 = 8" "read32 demo_mem 0x3020 = 2"
    "read64 demo_mem 0x3038 = 0x2010" "read32 demo_mem 0x3030 = 2"
    "read_bytes demo_mem 0x2010 2 = [0x70, 0x77]"
    by (simp_all add: read32_def read64_def demo_defs)
  show ?thesis
    by (simp add: f convertToVaultItemElement_def fst_rd_bind load32_def load64_def
        rd_return_def goBytes_def load_bytes_def vaultElementTypeString_def
        vaultElementTypeByteArray_def del: rd_bind_Some read_bytes_numeral)
qed

lemma demo_filetime:
  "time_Unix 0 (Nanoseconds \<lparr>LowDateTime = 0xD53E800A, HighDateTime = 0x019DB1DE\<rparr>) = Instant 1000"
  by (simp add: time_Unix_def Nanoseconds_def)

lemma demo_descriptors:
  "read_sysVaultItem8 demo_mem 0x1000 = demo_descriptor8 1"
  "read_sysVaultItem8 demo_mem 0x1050 = demo_descriptor8 2"
  "read_sysVaultItem8 demo_mem 0x10A0 = demo_descriptor8 3"
  by (simp_all add: read_sysVaultItem8_def demo_descriptor8_def read64_def read32_def demo_defs)

lemma demo_detail_fields:
  "read_bytes demo_mem 0x1100 16 = 1 # replicate 15 0"
  "read64 demo_mem 0x1110 = 0x2000"
  "read64 demo_mem 0x1118 = 0x3000"
  "read64 demo_mem 0x1120 = 0x3000"
  "read64 demo_mem 0x1128 = 0x3020"
  "read32 demo_mem 0x1138 = 0xD53E800A"
  "read32 demo_mem 0x113C = 0x019DB1DE"
  "read_bytes demo_mem 0x1150 16 = 3 # replicate 15 0"
  "read64 demo_mem 0x1160 = 0x2000"
  "read64 demo_mem 0x1168 = 0x3000"
  "read64 demo_mem 0x1170 = 0x3000"
  "read64 demo_mem 0x1178 = 0x3020"
  "read32 demo_mem 0x1188 = 0xD53E800A"
  "read32 demo_mem 0x118C = 0x019DB1DE"
  by (simp_all add: read64_def read32_def demo_defs)

lemma demo_details:
  "map_option fst (convertToVaultItem8 demo_mem 0x1100) = Some (demo_item 1)"
  "map_option fst (convertToVaultItem8 demo_mem 0x1150) = Some (demo_item 3)"
  by (simp_all add: convertToVaultItem8_def fst_rd_bind load_bytes_def load64_def
      load_Filetime_def rd_return_def demo_detail_fields demo_utf16 demo_string_elem
      demo_bytes_elem demo_filetime demo_item_def
      del: rd_bind_Some replicate_numeral_Cons read_bytes_numeral)

lemma demo_slice: "slice_addrs 0x1000 80 3 = [0x1000, 0x1050, 0x10A0]"
  by (simp add: slice_addrs_def upt_rec)

lemma demo_listing:
  "map_option fst (Items demo_cli False demo_vault 0) = Some (Inr [demo_item 1, demo_item 3])"
proof -
  obtain a1 where d1: "convertToVaultItem8 demo_mem 0x1100 = Some (demo_item 1, a1)"
    using demo_details(1) by auto
  obtain a3 where d3: "convertToVaultItem8 demo_mem 0x1150 = Some (demo_item 3, a3)"
    using demo_details(2) by auto
  show ?thesis
    by (simp add: Items_def sysVaultEnumerateItems_def fetch_descriptor_def
        sysVaultGetItem8_def demo_cli_def demo_vault_def demo_slice demo_descriptors
        demo_descriptor8_def d1 d3 del: replicate_numeral_Cons)
qed


lemma demo_outcomes:
  "fetch_outcomes (fetch_descriptor demo_cli False (handle demo_vault))
     (slice_addrs 0x1000 (if False then 72 else 80) 3) 1 =
   Some [Inr (demo_item 1), Inl (Errno 5), Inr (demo_item 3)]"
proof -
  obtain a1 where d1: "convertToVaultItem8 demo_mem 0x1100 = Some (demo_item 1, a1)"
    using demo_details(1) by auto
  obtain a3 where d3: "convertToVaultItem8 demo_mem 0x1150 = Some (demo_item 3, a3)"
    using demo_details(2) by auto
  show ?thesis
    by (simp add: fetch_descriptor_def sysVaultGetItem8_def demo_cli_def demo_vault_def
        demo_slice demo_descriptors demo_descriptor8_def d1 d3 del: replicate_numeral_Cons)
qed

lemma demo_frees:
  "map_option (\<lambda>r. (filter is_VaultFree (snd (snd r)), fst (snd r)))
     (sysVaultEnumerateItems demo_cli False 7 0) =
   Some ([Call_VaultFree 0x1100, Call_VaultFree 0x1150, Call_VaultFree 0x1000], 0)"
proof -
  obtain a1 where d1: "convertToVaultItem8 demo_mem 0x1100 = Some (demo_item 1, a1)"
    using demo_details(1) by auto
  obtain a3 where d3: "convertToVaultItem8 demo_mem 0x1150 = Some (demo_item 3, a3)"
    using demo_details(2) by auto
  show ?thesis
    by (simp add: sysVaultEnumerateItems_def fetch_descriptor_def
        sysVaultGetItem8_def demo_cli_def demo_slice demo_descriptors
        demo_descriptor8_def d1 d3 del: replicate_numeral_Cons)
qed

lemma even_word_half: "even (w :: 'a::len word) \<Longrightarrow> w div 2 * 2 = w"
  using div_mult_mod_eq [of w 2] by (simp add: even_iff_mod_2_eq_zero)

lemma three_zero_bytes_terminate:
  assumes "m a = 0" "m (a + 1) = 0" "m (a + 2) = 0"
  shows "\<exists>k. read16 m (p + k * 2) = 0"
proof (cases "even (a - p)")
  case True
  then have "p + (a - p) div 2 * 2 = a"
    by (simp add: even_word_half)
  moreover have "read16 m a = 0"
    using assms by (simp add: read16_def)
  ultimately show ?thesis by metis
next
  case False
  then have "even (a - p + 1)" by simp
  then have "p + (a - p + 1) div 2 * 2 = a + 1"
    by (simp add: even_word_half)
  moreover have "read16 m (a + 1) = 0"
    using assms by (simp add: read16_def add.assoc)
  ultimately show ?thesis by metis
qed

lemma demo_wstrings_terminated: "wstrings_terminated demo_cli"
proof -
  have "demo_mem 0 = 0" "demo_mem (0 + 1) = 0" "demo_mem (0 + 2) = 0"
    by (simp_all add: demo_defs)
  then have "\<And>p. \<exists>k. read16 demo_mem (p + k * 2) = 0"
    by (rule three_zero_bytes_terminate)
  then show ?thesis
    by (simp add: wstrings_terminated_def demo_cli_def)
qed

section \<open>The listing: its result and its frees\<close>

text \<open>
  Claim C2. When the native enumeration succeeds and every wide string of the native side
  is terminated, \<^verbatim>\<open>Items\<close> returns, and it returns success: its result holds exactly
  the items of the descriptors whose detail fetch returned no error, in the order of the
  enumeration; the descriptors whose fetch failed are left out, whichever and however many
  they are. (\<open>outs\<close> are the outcomes of the detail fetches, one per enumerated
  descriptor.)
\<close>

theorem listing_skips_failed_fetches:
  assumes "VaultEnumerateItems cli (handle t) s = ((0, count, items), s1)"
    and "wstrings_terminated cli"
  shows "\<exists>outs s' tr.
    fetch_outcomes (fetch_descriptor cli useAPI7 (handle t))
      (slice_addrs items (if useAPI7 then 72 else 80) count) s1 = Some outs \<and>
    length outs = nat (sint count) \<and>
    Items cli useAPI7 t s = Some (Inr (successes outs), s', tr)"
proof -
  obtain outs s2 tr where "fetch_outcomes (fetch_descriptor cli useAPI7 (handle t))
      (slice_addrs items (if useAPI7 then 72 else 80) count) s1 = Some outs"
    "length outs = length (slice_addrs items (if useAPI7 then 72 else 80) count)"
    "range_append (fetch_descriptor cli useAPI7 (handle t))
      (slice_addrs items (if useAPI7 then 72 else 80) count) [] s1 =
      Some ([] @ successes outs, s2, tr)"
    using range_append_outcomes [of "fetch_descriptor cli useAPI7 (handle t)",
        OF fetch_descriptor_returns [OF assms(2)]] by blast
  then show ?thesis
    using assms(1) by (simp add: Items_def sysVaultEnumerateItems_def)
qed

theorem listing_skips_failed_fetches_witness:
  "VaultEnumerateItems demo_cli (handle demo_vault) 0 = ((0, 3, 0x1000), 1) \<and>
   wstrings_terminated demo_cli \<and>
   (\<exists>outs s' tr.
      fetch_outcomes (fetch_descriptor demo_cli False (handle demo_vault))
        (slice_addrs 0x1000 (if False then 72 else 80) 3) 1 = Some outs \<and>
      length outs = nat (sint (3 :: 64 word)) \<and>
      Items demo_cli False demo_vault 0 = Some (Inr (successes outs), s', tr)) \<and>
   fetch_outcomes (fetch_descriptor demo_cli False (handle demo_vault))
     (slice_addrs 0x1000 (if False then 72 else 80) 3) 1 =
     Some [Inr (demo_item 1), Inl (Errno 5), Inr (demo_item 3)] \<and>
   map_option fst (Items demo_cli False demo_vault 0) = Some (Inr [demo_item 1, demo_item 3])"
proof -
  have h: "VaultEnumerateItems demo_cli (handle demo_vault) 0 = ((0, 3, 0x1000), 1)"
    by (simp add: demo_cli_def demo_vault_def)
  note t = listing_skips_failed_fetches [OF h demo_wstrings_terminated, of False]
  show ?thesis
    by (intro conjI h demo_wstrings_terminated t demo_outcomes demo_listing)
qed

text \<open>
  Claim C4. When the native enumeration succeeds (and every wide string of the native side
  is terminated, so that the call returns), the trace of \<^verbatim>\<open>sysVaultEnumerateItems\<close> is
  the enumeration call, the loop, and then one \<^verbatim>\<open>VaultFree\<close> of the enumeration
  buffer as the last native call before the return; the frees inside the loop are those
  of the detail records, one per item returned, so the buffer's own free is invoked
  exactly once whether none, some or all detail fetches fail. When the enumeration fails,
  the trace is the enumeration call alone: nothing is freed.
\<close>

theorem enumeration_buffer_freed_once:
  assumes "VaultEnumerateItems cli h s = ((ret, count, items), s1)"
  shows "(ret = 0 \<and> wstrings_terminated cli \<longrightarrow>
      (\<exists>res s' body.
         sysVaultEnumerateItems cli useAPI7 h s =
           Some (Inr res, s', Call_VaultEnumerateItems h # body @ [Call_VaultFree items]) \<and>
         length (filter is_VaultFree body) = length res)) \<and>
    (ret \<noteq> 0 \<longrightarrow>
      sysVaultEnumerateItems cli useAPI7 h s =
        Some (Inl (Errno ret), s1, [Call_VaultEnumerateItems h]))"
proof (intro conjI impI)
  assume "ret = 0 \<and> wstrings_terminated cli"
  then have ret: "ret = 0" and wf: "wstrings_terminated cli"
    by simp_all
  obtain outs s2 tr where
    "range_append (fetch_descriptor cli useAPI7 h)
      (slice_addrs items (if useAPI7 then 72 else 80) count) [] s1 =
      Some ([] @ successes outs, s2, tr)"
    "length (filter is_VaultFree tr) = length (successes outs)"
    using range_append_outcomes [of "fetch_descriptor cli useAPI7 h",
        OF fetch_descriptor_returns [OF wf]] by blast
  then show "\<exists>res s' body.
         sysVaultEnumerateItems cli useAPI7 h s =
           Some (Inr res, s', Call_VaultEnumerateItems h # body @ [Call_VaultFree items]) \<and>
         length (filter is_VaultFree body) = length res"
    using assms ret by (simp add: sysVaultEnumerateItems_def)
next
  assume "ret \<noteq> 0"
  then show "sysVaultEnumerateItems cli useAPI7 h s =
      Some (Inl (Errno ret), s1, [Call_VaultEnumerateItems h])"
    using assms by (simp add: sysVaultEnumerateItems_def)
qed

theorem enumeration_buffer_freed_once_witness:
  "VaultEnumerateItems demo_cli 7 0 = ((0, 3, 0x1000), 1) \<and>
   wstrings_terminated demo_cli \<and>
   (\<exists>res s' body.
      sysVaultEnumerateItems demo_cli False 7 0 =
        Some (Inr res, s', Call_VaultEnumerateItems 7 # body @ [Call_VaultFree 0x1000]) \<and>
      length (filter is_VaultFree body) = length res) \<and>
   map_option (\<lambda>r. (filter is_VaultFree (snd (snd r)), fst (snd r)))
     (sysVaultEnumerateItems demo_cli False 7 0) =
     Some ([Call_VaultFree 0x1100, Call_VaultFree 0x1150, Call_VaultFree 0x1000], 0) \<and>
   VaultEnumerateItems demo_cli 9 0 = ((6, 0, 0), 0) \<and> (6 :: uintptr) \<noteq> 0 \<and>
   sysVaultEnumerateItems demo_cli False 9 0 =
     Some (Inl (Errno 6), 0, [Call_VaultEnumerateItems 9])"
proof -
  have h7: "VaultEnumerateItems demo_cli 7 0 = ((0, 3, 0x1000), 1)"
    and h9: "VaultEnumerateItems demo_cli 9 0 = ((6, 0, 0), 0)"
    and n: "(6 :: uintptr) \<noteq> 0"
    by (simp_all add: demo_cli_def)
  have t7: "\<exists>res s' body.
      sysVaultEnumerateItems demo_cli False 7 0 =
        Some (Inr res, s', Call_VaultEnumerateItems 7 # body @ [Call_VaultFree 0x1000]) \<and>
      length (filter is_VaultFree body) = length res"
    using enumeration_buffer_freed_once [OF h7, of False] demo_wstrings_terminated by blast
  have t9: "sysVaultEnumerateItems demo_cli False 9 0 =
     Some (Inl (Errno 6), 0, [Call_VaultEnumerateItems 9])"
    using enumeration_buffer_freed_once [OF h9, of False] n by blast
  show ?thesis
    by (intro conjI h7 h9 n t7 t9 demo_wstrings_terminated demo_frees)
qed

end
